theory Spec2Isabelle
  imports Complex_Main
begin

section \<open>Values of the program\<close>

text \<open>
  The exceptions that \<^verbatim>\<open>model.py\<close> and the library calls it makes can raise.
  \<open>UnboundLocalError\<close> carries the name of the local variable that was read before
  any assignment to it.
\<close>

datatype error = UnboundLocalError string | IndexError | ValueError | TensorIndexError

text \<open>
  Raising propagates through a sequence of statements: the rest of the block runs only
  when the statement before it returned.
\<close>

definition and_then :: "error + 'a \<Rightarrow> ('a \<Rightarrow> error + 'b) \<Rightarrow> error + 'b" where
  "and_then m f = (case m of Inl e \<Rightarrow> Inl e | Inr v \<Rightarrow> f v)"

text \<open>
  A tensor is its shape and its entries in row-major order. The entries are real numbers
  (the program declares \<^verbatim>\<open>tf.float32\<close>; rounding is not modelled). A tensor is
  well formed when it has as many entries as its shape says.
\<close>

datatype tensor = Tensor (shape: "nat list") (vals: "real list")

definition wf_tensor :: "tensor \<Rightarrow> bool" where
  "wf_tensor t = (length (vals t) = prod_list (shape t))"

text \<open>
  The argument of \<^verbatim>\<open>call\<close> is, in the words of its docstring, "a tensor or list of
  tensors".
\<close>

datatype pyval = Single tensor | Many "tensor list"

text \<open>
  \<^verbatim>\<open>inputs[i]\<close> for a constant index \<open>i \<ge> 0\<close>: the \<open>i\<close>-th element of a list, or the
  \<open>i\<close>-th slice of a tensor along its first axis. A list raises IndexError out of range.
  A tensor indexed out of range, or a scalar that is indexed, raises an exception whose
  class depends on the kind of array (IndexError for a NumPy array, InvalidArgumentError
  for an eager tensor, ValueError while a graph is traced); \<open>TensorIndexError\<close> stands
  for it.
\<close>

definition getitem :: "pyval \<Rightarrow> nat \<Rightarrow> error + tensor" where
  "getitem v i =
     (case v of
        Many ts \<Rightarrow> (if i < length ts then Inr (ts ! i) else Inl IndexError)
      | Single t \<Rightarrow>
          (case shape t of
             [] \<Rightarrow> Inl TensorIndexError
           | n # ds \<Rightarrow>
               (if i < n
                then Inr (Tensor ds (take (prod_list ds) (drop (i * prod_list ds) (vals t))))
                else Inl TensorIndexError)))"

section \<open>Element-wise tensor arithmetic of the library\<close>

text \<open>
  Binary operators on tensors broadcast: shapes are aligned at their last dimension, a
  missing or unit dimension is stretched to the other operand's, and any other mismatch
  is an error. \<open>broadcast_dims\<close> works on the reversed shapes.
\<close>

fun broadcast_dims :: "nat list \<Rightarrow> nat list \<Rightarrow> nat list option" where
  "broadcast_dims [] ys = Some ys"
| "broadcast_dims (x # xs) [] = Some (x # xs)"
| "broadcast_dims (x # xs) (y # ys) =
     (if x = y \<or> y = 1 then map_option ((#) x) (broadcast_dims xs ys)
      else if x = 1 then map_option ((#) y) (broadcast_dims xs ys)
      else None)"

definition broadcast_shape :: "nat list \<Rightarrow> nat list \<Rightarrow> nat list option" where
  "broadcast_shape s t = map_option rev (broadcast_dims (rev s) (rev t))"

text \<open>
  \<open>src_index rr rs i\<close> is the row-major position, in an operand of (reversed) shape
  \<open>rs\<close>, of the entry that is used at row-major position \<open>i\<close> of the result of
  (reversed) shape \<open>rr\<close>.
\<close>

fun src_index :: "nat list \<Rightarrow> nat list \<Rightarrow> nat \<Rightarrow> nat" where
  "src_index [] rs i = 0"
| "src_index (r # rr) [] i = 0"
| "src_index (r # rr) (s # rs) i =
     (if s = 1 then 0 else i mod r) + s * src_index rr rs (i div r)"

definition tf_binop :: "(real \<Rightarrow> real \<Rightarrow> real) \<Rightarrow> tensor \<Rightarrow> tensor \<Rightarrow> error + tensor" where
  "tf_binop f a b =
     (case broadcast_shape (shape a) (shape b) of
        None \<Rightarrow> Inl ValueError
      | Some r \<Rightarrow>
          Inr (Tensor r
                (map (\<lambda>i. f (vals a ! src_index (rev r) (rev (shape a)) i)
                           (vals b ! src_index (rev r) (rev (shape b)) i))
                     [0 ..< prod_list r])))"

definition tf_subtract :: "tensor \<Rightarrow> tensor \<Rightarrow> error + tensor" where
  "tf_subtract a b = tf_binop (\<lambda>x y. x - y) a b"

definition tf_abs :: "tensor \<Rightarrow> tensor" where
  "tf_abs t = Tensor (shape t) (map abs (vals t))"

section \<open>The distance layer\<close>

text \<open>
  \<^verbatim>\<open>self.l1 = keras.layers.Lambda(lambda x: tf.abs(x[0] - x[1]))\<close>. A Lambda layer
  applies the function it wraps; the argument is the pair \<^verbatim>\<open>(first, second)\<close>.
\<close>

definition l1 :: "tensor \<times> tensor \<Rightarrow> error + tensor" where
  "l1 x = and_then (tf_subtract (fst x) (snd x)) (\<lambda>d. Inr (tf_abs d))"

section \<open>The library's layer classes\<close>

text \<open>
  The layer classes of \<^verbatim>\<open>tensorflow.keras\<close> are not part of this program, so the
  model takes them as a parameter: each constructor either raises or returns a layer
  object, and a layer object, called on a value, either raises or returns a tensor.
  The constructors receive what \<^verbatim>\<open>__init__\<close> passes them. The classes that own
  weights (Conv2D, Dense) take in addition the serial number of the instance among those
  the constructor of the model creates, since two layer objects created separately own
  separately initialised weights even when their configuration is the same. An
  InputLayer returns a value of the kind it was given.
\<close>

datatype activation = relu | sigmoid

datatype regularizer = l2

datatype pyobj = PInt int | PTuple "int list"

type_synonym layer = "pyval \<Rightarrow> error + tensor"

record keras =
  InputLayer :: "pyobj \<Rightarrow> pyobj \<Rightarrow> error + (pyval \<Rightarrow> error + pyval)"
  Conv2D :: "nat \<Rightarrow> int \<Rightarrow> int \<times> int \<Rightarrow> regularizer \<Rightarrow> activation \<Rightarrow> error + layer"
  MaxPool2D :: "int \<times> int \<Rightarrow> error + layer"
  Flatten :: "error + layer"
  Dense :: "nat \<Rightarrow> int \<Rightarrow> activation \<Rightarrow> error + layer"

section \<open>The model: class SiameseNetwork\<close>

text \<open>
  The attributes that \<^verbatim>\<open>__init__\<close> sets. \<^verbatim>\<open>self.l1\<close> is the constant \<open>l1\<close>
  above.
\<close>

record SiameseNetwork =
  num_classes :: int
  batch_size :: pyobj
  in_shape :: pyobj
  input_layer :: "pyval \<Rightarrow> error + pyval"
  conv1 :: layer
  pool1 :: layer
  conv2 :: layer
  pool2 :: layer
  conv3 :: layer
  pool3 :: layer
  conv4 :: layer
  pool4 :: layer
  flatten :: layer
  dense :: layer
  prediction :: layer

text \<open>
  \<^verbatim>\<open>__init__(self, num_classes=1, **kwargs)\<close>: the keyword arguments are a dictionary,
  read with \<^verbatim>\<open>kwargs.get(key, default)\<close>. The layers are created in the order of the
  source, each exactly once; an exception of a constructor leaves \<^verbatim>\<open>__init__\<close>.
  The body contains no check of its own on \<^verbatim>\<open>num_classes\<close>.
\<close>

definition init :: "keras \<Rightarrow> int \<Rightarrow> (string \<rightharpoonup> pyobj) \<Rightarrow> error + SiameseNetwork" where
  "init K n kwargs =
     (let bs = (case kwargs ''batch_size'' of None \<Rightarrow> PInt 16 | Some v \<Rightarrow> v);
          ish = (case kwargs ''input_shape'' of None \<Rightarrow> PTuple [105, 105, 1] | Some v \<Rightarrow> v)
      in
      and_then (InputLayer K ish bs) (\<lambda>il.
      and_then (Conv2D K 0 64 (10, 10) l2 relu) (\<lambda>c1.
      and_then (MaxPool2D K (2, 2)) (\<lambda>p1.
      and_then (Conv2D K 1 128 (7, 7) l2 relu) (\<lambda>c2.
      and_then (MaxPool2D K (2, 2)) (\<lambda>p2.
      and_then (Conv2D K 2 128 (4, 4) l2 relu) (\<lambda>c3.
      and_then (MaxPool2D K (2, 2)) (\<lambda>p3.
      and_then (Conv2D K 3 256 (4, 4) l2 relu) (\<lambda>c4.
      and_then (MaxPool2D K (2, 2)) (\<lambda>p4.
      and_then (Flatten K) (\<lambda>fl.
      and_then (Dense K 0 4096 sigmoid) (\<lambda>de.
      and_then (Dense K 1 n sigmoid) (\<lambda>pr.
      Inr \<lparr>num_classes = n, batch_size = bs, in_shape = ish, input_layer = il,
           conv1 = c1, pool1 = p1, conv2 = c2, pool2 = p2, conv3 = c3, pool3 = p3,
           conv4 = c4, pool4 = p4, flatten = fl, dense = de, prediction = pr\<rparr>)))))))))))))"

text \<open>
  The inner function \<^verbatim>\<open>encoder(x)\<close> of \<^verbatim>\<open>call\<close>. Its first statement,
  \<^verbatim>\<open>x = self.input_layer(inputs)\<close>, assigns to the parameter \<open>x\<close> from the variable
  \<^verbatim>\<open>inputs\<close> of the enclosing \<^verbatim>\<open>call\<close>; every later \<open>x\<close> is the rebound one.
\<close>

definition encoder :: "SiameseNetwork \<Rightarrow> pyval \<Rightarrow> tensor \<Rightarrow> error + tensor" where
  "encoder self inputs x =
     and_then (input_layer self inputs) (\<lambda>x.
     and_then (conv1 self x) (\<lambda>c. and_then (pool1 self (Single c)) (\<lambda>x.
     and_then (conv2 self (Single x)) (\<lambda>c. and_then (pool2 self (Single c)) (\<lambda>x.
     and_then (conv3 self (Single x)) (\<lambda>c. and_then (pool3 self (Single c)) (\<lambda>x.
     and_then (conv4 self (Single x)) (\<lambda>c. and_then (pool4 self (Single c)) (\<lambda>x.
     and_then (flatten self (Single x)) (\<lambda>x.
     and_then (dense self (Single x)) (\<lambda>x.
     Inr x)))))))))))"

text \<open>
  \<^verbatim>\<open>call(self, inputs)\<close>. The statement \<^verbatim>\<open>x = self.prediction(x)\<close> makes \<open>x\<close> a
  local variable of \<^verbatim>\<open>call\<close>, and no statement before it assigns to that variable
  (the \<open>x\<close> of \<^verbatim>\<open>encoder\<close> is local to \<^verbatim>\<open>encoder\<close>): evaluating the argument
  raises UnboundLocalError.
\<close>

definition unbound_local :: "string \<Rightarrow> error + tensor" where
  "unbound_local name = Inl (UnboundLocalError name)"

definition call :: "SiameseNetwork \<Rightarrow> pyval \<Rightarrow> error + tensor" where
  "call self inputs =
     and_then (getitem inputs 0) (\<lambda>i0. and_then (encoder self inputs i0) (\<lambda>first.
     and_then (getitem inputs 1) (\<lambda>i1. and_then (encoder self inputs i1) (\<lambda>second.
     and_then (l1 (first, second)) (\<lambda>distance.
     and_then (unbound_local ''x'') (\<lambda>x. and_then (prediction self (Single x)) (\<lambda>x.
     Inr x)))))))"

text \<open>
  The statements of \<^verbatim>\<open>call\<close> up to the two tower invocations, and up to the distance.
\<close>

definition sisters :: "SiameseNetwork \<Rightarrow> pyval \<Rightarrow> error + tensor \<times> tensor" where
  "sisters self inputs =
     and_then (getitem inputs 0) (\<lambda>i0. and_then (encoder self inputs i0) (\<lambda>first.
     and_then (getitem inputs 1) (\<lambda>i1. and_then (encoder self inputs i1) (\<lambda>second.
     Inr (first, second)))))"

definition call_distance :: "SiameseNetwork \<Rightarrow> pyval \<Rightarrow> error + tensor" where
  "call_distance self inputs =
     and_then (sisters self inputs) (\<lambda>towers. l1 (fst towers, snd towers))"

text \<open>
  \<^verbatim>\<open>compute_output_shape(self, input_shape)\<close>. A shape is a list of dimensions, each
  a size or unknown (\<^verbatim>\<open>None\<close>). \<^verbatim>\<open>shape[-1] = self.num_classes\<close> raises IndexError
  on the empty list, and \<^verbatim>\<open>tf.TensorShape\<close> raises ValueError for a negative
  dimension.
\<close>

definition compute_output_shape ::
  "SiameseNetwork \<Rightarrow> nat option list \<Rightarrow> error + nat option list" where
  "compute_output_shape self input_shape =
     (if input_shape = [] then Inl IndexError
      else if num_classes self < 0 then Inl ValueError
      else Inr (butlast input_shape @ [Some (nat (num_classes self))]))"

section \<open>An instance of the library\<close>

text \<open>
  To run the model on concrete inputs the library parameter needs a value. \<open>MiniKeras\<close>
  gives the library's layer classes fixed weights: every kernel entry is 1 and every
  bias is 0. The constructors of Conv2D, MaxPool2D and Dense reject the configurations
  the library rejects (a number of filters, a kernel size or a pool size that is not
  positive, a negative number of units), and the layers reject the inputs the library
  rejects (a list of tensors, a tensor of the wrong rank, an image smaller than the
  kernel or the pooling window). The InputLayer constructor takes the shape and the batch
  size as given (below it is only called with the default shape and an integer batch
  size), and an InputLayer returns the value it is called on. The layers are functions of
  their input alone: in a forward pass each layer object is called on equal values by
  both tower invocations, so weights that the library builds at a layer's first call are
  the weights of its second call.
\<close>

fun act_fn :: "activation \<Rightarrow> real \<Rightarrow> real" where
  "act_fn relu v = max 0 v"
| "act_fn sigmoid v = 1 / (1 + exp (- v))"

text \<open>
  The entry at batch index \<open>b\<close>, row \<open>y\<close>, column \<open>x\<close>, channel \<open>ch\<close> of a tensor of
  shape \<open>(n, h, w, c)\<close> whose entries are \<open>vs\<close>.
\<close>

definition nhwc :: "real list \<Rightarrow> nat \<Rightarrow> nat \<Rightarrow> nat \<Rightarrow> nat \<Rightarrow> nat \<Rightarrow> nat \<Rightarrow> nat \<Rightarrow> real" where
  "nhwc vs h w c b y x ch = vs ! (((b * h + y) * w + x) * c + ch)"

text \<open>
  Conv2D with the default stride 1 and padding \<^verbatim>\<open>valid\<close>: the output has shape
  \<open>(n, h - kh + 1, w - kw + 1, filters)\<close>, and with unit kernels and zero bias each of
  its entries is the activation of the sum of the input entries under the window.
\<close>

definition window_sum ::
  "real list \<Rightarrow> nat \<Rightarrow> nat \<Rightarrow> nat \<Rightarrow> nat \<Rightarrow> nat \<Rightarrow> nat \<Rightarrow> nat \<Rightarrow> nat \<Rightarrow> real" where
  "window_sum vs h w c b y x kh kw =
     sum_list (map (\<lambda>dy. sum_list (map (\<lambda>dx. sum_list (map (\<lambda>ch.
       nhwc vs h w c b (y + dy) (x + dx) ch) [0 ..< c])) [0 ..< kw])) [0 ..< kh])"

definition mini_conv :: "nat \<Rightarrow> nat \<Rightarrow> nat \<Rightarrow> activation \<Rightarrow> layer" where
  "mini_conv filters kh kw a v =
     (case v of
        Many ts \<Rightarrow> Inl ValueError
      | Single t \<Rightarrow>
          (case shape t of
             [n, h, w, c] \<Rightarrow>
               (if h < kh \<or> w < kw then Inl ValueError
                else Inr (Tensor [n, h - kh + 1, w - kw + 1, filters]
                       (concat (map (\<lambda>b. concat (map (\<lambda>y. concat (map (\<lambda>x.
                          replicate filters (act_fn a (window_sum (vals t) h w c b y x kh kw)))
                        [0 ..< w - kw + 1])) [0 ..< h - kh + 1])) [0 ..< n]))))
           | _ \<Rightarrow> Inl ValueError))"

text \<open>
  MaxPool2D with the default stride (the pool size) and padding \<^verbatim>\<open>valid\<close>: the output
  has shape \<open>(n, h div ph, w div pw, c)\<close>, each entry the maximum of its window.
\<close>

fun max_list :: "real list \<Rightarrow> real" where
  "max_list [] = 0"
| "max_list [v] = v"
| "max_list (v # u # us) = max v (max_list (u # us))"

definition window ::
  "real list \<Rightarrow> nat \<Rightarrow> nat \<Rightarrow> nat \<Rightarrow> nat \<Rightarrow> nat \<Rightarrow> nat \<Rightarrow> nat \<Rightarrow> nat \<Rightarrow> nat \<Rightarrow> real list" where
  "window vs h w c b y x ch ph pw =
     concat (map (\<lambda>dy. map (\<lambda>dx. nhwc vs h w c b (y * ph + dy) (x * pw + dx) ch)
       [0 ..< pw]) [0 ..< ph])"

definition mini_pool :: "nat \<Rightarrow> nat \<Rightarrow> layer" where
  "mini_pool ph pw v =
     (case v of
        Many ts \<Rightarrow> Inl ValueError
      | Single t \<Rightarrow>
          (case shape t of
             [n, h, w, c] \<Rightarrow>
               (if h < ph \<or> w < pw then Inl ValueError
                else Inr (Tensor [n, h div ph, w div pw, c]
                       (concat (map (\<lambda>b. concat (map (\<lambda>y. concat (map (\<lambda>x.
                          map (\<lambda>ch. max_list (window (vals t) h w c b y x ch ph pw)) [0 ..< c])
                        [0 ..< w div pw])) [0 ..< h div ph])) [0 ..< n]))))
           | _ \<Rightarrow> Inl ValueError))"

text \<open>
  Flatten keeps the first axis and merges the others. Dense needs rank 2 or more and
  works on the last axis: with unit kernel and zero bias every output unit is the
  activation of the sum of the row.
\<close>

definition mini_flatten :: layer where
  "mini_flatten v =
     (case v of
        Many ts \<Rightarrow> Inl ValueError
      | Single t \<Rightarrow>
          (case shape t of
             [] \<Rightarrow> Inl ValueError
           | n # ds \<Rightarrow> Inr (Tensor [n, prod_list ds] (vals t))))"

definition mini_dense :: "nat \<Rightarrow> activation \<Rightarrow> layer" where
  "mini_dense units a v =
     (case v of
        Many ts \<Rightarrow> Inl ValueError
      | Single t \<Rightarrow>
          (if length (shape t) < 2 then Inl ValueError
           else Inr (Tensor (butlast (shape t) @ [units])
                  (concat (map (\<lambda>r. replicate units
                     (act_fn a (sum_list (map (\<lambda>j. vals t ! (r * last (shape t) + j))
                                              [0 ..< last (shape t)]))))
                   [0 ..< prod_list (butlast (shape t))])))))"

definition MiniKeras :: keras where
  "MiniKeras =
     \<lparr>InputLayer = (\<lambda>ish bs. Inr (\<lambda>v. Inr v)),
      Conv2D = (\<lambda>k filters kernel_size reg a.
        if filters \<le> 0 \<or> fst kernel_size \<le> 0 \<or> snd kernel_size \<le> 0 then Inl ValueError
        else Inr (mini_conv (nat filters) (nat (fst kernel_size)) (nat (snd kernel_size)) a)),
      MaxPool2D = (\<lambda>pool_size.
        if fst pool_size \<le> 0 \<or> snd pool_size \<le> 0 then Inl ValueError
        else Inr (mini_pool (nat (fst pool_size)) (nat (snd pool_size)))),
      Flatten = Inr mini_flatten,
      Dense = (\<lambda>k units a. if units < 0 then Inl ValueError else Inr (mini_dense (nat units) a))\<rparr>"

text \<open>
  A batch of constant images: image \<open>i\<close> has \<open>m\<close> entries, all equal to the \<open>i\<close>-th
  element of the list. On such a batch a network with unit kernels can be evaluated in
  closed form; \<open>mini_embedding v\<close> is the value of every entry of the embedding that the
  encoder layers of \<open>MiniKeras\<close> give a \<open>105 \<times> 105 \<times> 1\<close> image that is constantly \<open>v\<close>.
\<close>

definition const_images :: "nat \<Rightarrow> real list \<Rightarrow> real list" where
  "const_images m as = concat (map (replicate m) as)"

definition mini_embedding :: "real \<Rightarrow> real" where
  "mini_embedding v =
     act_fn sigmoid (2304 * act_fn relu (2048 * act_fn relu (2048 * act_fn relu
       (3136 * act_fn relu (100 * v)))))"

section \<open>Properties of the element-wise arithmetic\<close>

lemma broadcast_dims_same: "broadcast_dims xs xs = Some xs"
  by (induction xs) simp_all

lemma broadcast_shape_same: "broadcast_shape s s = Some s"
  by (simp add: broadcast_shape_def broadcast_dims_same)

lemma src_index_same: "i < prod_list rs \<Longrightarrow> src_index rs rs i = i"
proof (induction rs arbitrary: i)
  case Nil
  then show ?case by simp
next
  case (Cons r rs)
  show ?case
  proof (cases "r = 1")
    case True
    with Cons show ?thesis by simp
  next
    case False
    from Cons.prems have "0 < r" by (cases "r = 0") simp_all
    with Cons.prems have "i div r < prod_list rs"
      by (simp add: less_mult_imp_div_less mult.commute)
    then have "src_index rs rs (i div r) = i div r" by (rule Cons.IH)
    with False show ?thesis by simp
  qed
qed

lemma tf_binop_same_shape:
  assumes "wf_tensor a" and "wf_tensor b" and "shape a = shape b"
  shows "tf_binop f a b = Inr (Tensor (shape a) (map2 f (vals a) (vals b)))"
proof -
  let ?n = "prod_list (shape a)"
  from assms have la: "length (vals a) = ?n" and lb: "length (vals b) = ?n"
    by (simp_all add: wf_tensor_def)
  have "map (\<lambda>i. f (vals a ! src_index (rev (shape a)) (rev (shape a)) i)
                   (vals b ! src_index (rev (shape a)) (rev (shape a)) i)) [0 ..< ?n]
        = map2 f (vals a) (vals b)"
    by (rule nth_equalityI) (simp_all add: la lb src_index_same)
  with assms(3) show ?thesis
    by (simp add: tf_binop_def broadcast_shape_same)
qed

lemma l1_same_shape:
  assumes "wf_tensor a" and "wf_tensor b" and "shape a = shape b"
  shows "l1 (a, b) = Inr (Tensor (shape a) (map2 (\<lambda>x y. \<bar>x - y\<bar>) (vals a) (vals b)))"
proof -
  have "map abs (map2 (\<lambda>x y. x - y) (vals a) (vals b))
        = map2 (\<lambda>x y. \<bar>x - y\<bar>) (vals a) (vals b)"
    by (simp add: map_zip_map map_zip_map2 split_def)
  with tf_binop_same_shape [OF assms, of "\<lambda>x y. x - y"] show ?thesis
    by (simp add: l1_def tf_subtract_def and_then_def tf_abs_def)
qed

section \<open>Properties of the forward pass\<close>

lemma encoder_ignores_x: "encoder self inputs x = encoder self inputs y"
  by (simp add: encoder_def)

lemma sisters_eq:
  assumes "getitem inputs 0 = Inr a" and "getitem inputs 1 = Inr b"
    and "encoder self inputs a = Inr e"
  shows "sisters self inputs = Inr (e, e)"
proof -
  have "encoder self inputs b = Inr e"
    using assms(3) encoder_ignores_x [of self inputs b a] by simp
  with assms show ?thesis by (simp add: sisters_def and_then_def)
qed

lemma sisters_same:
  assumes "sisters self inputs = Inr (f, s)"
  shows "f = s"
proof -
  from assms obtain a b where f: "encoder self inputs a = Inr f" and s: "encoder self inputs b = Inr s"
    by (auto simp: sisters_def and_then_def split: sum.splits)
  from f s encoder_ignores_x [of self inputs a b] show ?thesis by simp
qed

lemma call_via_distance:
  "call self inputs = and_then (call_distance self inputs) (\<lambda>d. Inl (UnboundLocalError ''x''))"
  by (simp add: call_def call_distance_def sisters_def and_then_def unbound_local_def split: sum.splits)

lemma map2_abs_diff_self: "map2 (\<lambda>x y. \<bar>x - y\<bar>) xs xs = replicate (length xs) (0::real)"
  by (induction xs) simp_all

lemma l1_self:
  assumes "wf_tensor e"
  shows "l1 (e, e) = Inr (Tensor (shape e) (replicate (prod_list (shape e)) 0))"
  using l1_same_shape [OF assms assms] assms by (simp add: map2_abs_diff_self wf_tensor_def)

lemma init_Inl_source:
  assumes "init K n kwargs = Inl e"
  shows "InputLayer K (case kwargs ''input_shape'' of None \<Rightarrow> PTuple [105, 105, 1] | Some v \<Rightarrow> v)
                      (case kwargs ''batch_size'' of None \<Rightarrow> PInt 16 | Some v \<Rightarrow> v) = Inl e
         \<or> Conv2D K 0 64 (10, 10) l2 relu = Inl e
         \<or> Conv2D K 1 128 (7, 7) l2 relu = Inl e
         \<or> Conv2D K 2 128 (4, 4) l2 relu = Inl e
         \<or> Conv2D K 3 256 (4, 4) l2 relu = Inl e
         \<or> MaxPool2D K (2, 2) = Inl e
         \<or> Flatten K = Inl e
         \<or> Dense K 0 4096 sigmoid = Inl e
         \<or> Dense K 1 n sigmoid = Inl e"
  using assms by (auto simp add: init_def and_then_def Let_def split: sum.splits)

section \<open>Properties of the library instance\<close>

lemma length_const_images [simp]: "length (const_images m as) = length as * m"
  by (induction as) (simp_all add: const_images_def)

lemma const_images_nth:
  "b < length as \<Longrightarrow> i < m \<Longrightarrow> const_images m as ! (b * m + i) = as ! b"
proof (induction as arbitrary: b)
  case Nil
  then show ?case by simp
next
  case (Cons a as)
  have c: "const_images m (a # as) = replicate m a @ const_images m as"
    by (simp add: const_images_def)
  show ?case
  proof (cases b)
    case 0
    with Cons.prems show ?thesis by (simp add: c nth_append)
  next
    case (Suc b')
    with Cons.prems have "const_images m as ! (b' * m + i) = as ! b'" by (intro Cons.IH) simp_all
    with Suc show ?thesis by (simp add: c nth_append)
  qed
qed

lemma pixel_bound:
  assumes "y < h" and "x < w" and "ch < (c::nat)"
  shows "(y * w + x) * c + ch < h * w * c"
proof -
  from assms(1,2) have "y * w + x < Suc y * w" by simp
  also from assms(1) have "Suc y * w \<le> h * w" by (intro mult_le_mono1) simp
  finally have "Suc (y * w + x) \<le> h * w" by simp
  then have "Suc (y * w + x) * c \<le> h * w * c" by (rule mult_le_mono1)
  moreover from assms(3) have "(y * w + x) * c + ch < Suc (y * w + x) * c" by simp
  ultimately show ?thesis by simp
qed

lemma nhwc_const:
  assumes "b < length as" and "y < h" and "x < w" and "ch < c"
  shows "nhwc (const_images (h * w * c) as) h w c b y x ch = as ! b"
proof -
  have "((b * h + y) * w + x) * c + ch = b * (h * w * c) + ((y * w + x) * c + ch)"
    by (simp add: algebra_simps)
  with const_images_nth [OF assms(1) pixel_bound [OF assms(2-4)]] show ?thesis
    by (simp only: nhwc_def)
qed

lemma concat_same: "concat (map (\<lambda>i. replicate m v) [0 ..< k]) = replicate (k * m) v"
proof (induction k)
  case 0
  show ?case by simp
next
  case (Suc k)
  then show ?case by (simp add: replicate_add [symmetric] add.commute)
qed

lemma concat_per_image:
  "concat (map (\<lambda>b. replicate m (g (as ! b))) [0 ..< length as]) = const_images m (map g as)"
proof -
  have "map (\<lambda>b. replicate m (g (as ! b))) [0 ..< length as]
        = map (\<lambda>v. replicate m (g v)) (map (\<lambda>b. as ! b) [0 ..< length as])"
    by simp
  also have "\<dots> = map (\<lambda>v. replicate m (g v)) as" by (simp only: map_nth)
  finally show ?thesis by (simp add: const_images_def comp_def)
qed

lemma sum_list_upt_const:
  assumes "\<And>i. i < k \<Longrightarrow> f i = (v::real)"
  shows "sum_list (map f [0 ..< k]) = real k * v"
proof -
  from assms have eq: "map f [0 ..< k] = map (\<lambda>i. v) [0 ..< k]" by simp
  show ?thesis unfolding eq by (simp add: sum_list_triv)
qed

lemma map_upt_const:
  assumes "\<And>i. i < k \<Longrightarrow> f i = v"
  shows "map f [0 ..< k] = replicate k v"
proof -
  from assms have eq: "map f [0 ..< k] = map (\<lambda>i. v) [0 ..< k]" by simp
  show ?thesis unfolding eq by (simp add: map_replicate_const)
qed

lemma concat_upt_const:
  assumes "\<And>i. i < k \<Longrightarrow> f i = replicate m v"
  shows "concat (map f [0 ..< k]) = replicate (k * m) v"
proof -
  from assms have eq: "map f [0 ..< k] = map (\<lambda>i. replicate m v) [0 ..< k]" by simp
  show ?thesis unfolding eq by (rule concat_same)
qed

lemma concat_upt_per_image:
  assumes "\<And>b. b < length as \<Longrightarrow> f b = replicate m (g (as ! b))"
  shows "concat (map f [0 ..< length as]) = const_images m (map g as)"
proof -
  from assms have eq:
    "map f [0 ..< length as] = map (\<lambda>b. replicate m (g (as ! b))) [0 ..< length as]"
    by simp
  show ?thesis unfolding eq by (rule concat_per_image)
qed

lemma window_sum_const:
  assumes "b < length as" and "y + kh \<le> h" and "x + kw \<le> w"
  shows "window_sum (const_images (h * w * c) as) h w c b y x kh kw = real (kh * kw * c) * as ! b"
proof -
  have px: "nhwc (const_images (h * w * c) as) h w c b (y + dy) (x + dx) ch = as ! b"
    if "dy < kh" and "dx < kw" and "ch < c" for dy dx ch
    using assms that by (intro nhwc_const) simp_all
  have ch: "sum_list (map (\<lambda>ch. nhwc (const_images (h * w * c) as) h w c b (y + dy) (x + dx) ch)
              [0 ..< c]) = real c * as ! b"
    if "dy < kh" and "dx < kw" for dy dx
    using that by (intro sum_list_upt_const px)
  have dx: "sum_list (map (\<lambda>dx. sum_list (map (\<lambda>ch.
              nhwc (const_images (h * w * c) as) h w c b (y + dy) (x + dx) ch) [0 ..< c]))
              [0 ..< kw]) = real kw * (real c * as ! b)"
    if "dy < kh" for dy
    using that by (intro sum_list_upt_const ch)
  have "window_sum (const_images (h * w * c) as) h w c b y x kh kw
        = real kh * (real kw * (real c * as ! b))"
    unfolding window_sum_def by (intro sum_list_upt_const dx)
  then show ?thesis by simp
qed

lemma mini_conv_const:
  assumes "n = length as" and "m = h * w * c" and "kh \<le> h" and "kw \<le> w"
  shows "mini_conv f kh kw a (Single (Tensor [n, h, w, c] (const_images m as)))
         = Inr (Tensor [n, h - kh + 1, w - kw + 1, f]
                 (const_images ((h - kh + 1) * (w - kw + 1) * f)
                    (map (\<lambda>v. act_fn a (real (kh * kw * c) * v)) as)))"
proof -
  let ?vs = "const_images (h * w * c) as"
  let ?g = "\<lambda>v. act_fn a (real (kh * kw * c) * v)"
  have ws: "window_sum ?vs h w c b y x kh kw = real (kh * kw * c) * as ! b"
    if "b < length as" and "y < h - kh + 1" and "x < w - kw + 1" for b y x
    using assms that by (intro window_sum_const) simp_all
  have xs: "concat (map (\<lambda>x. replicate f (act_fn a (window_sum ?vs h w c b y x kh kw)))
              [0 ..< w - kw + 1]) = replicate ((w - kw + 1) * f) (?g (as ! b))"
    if "b < length as" and "y < h - kh + 1" for b y
    using that by (intro concat_upt_const) (simp only: ws)
  have ys: "concat (map (\<lambda>y. concat (map (\<lambda>x.
              replicate f (act_fn a (window_sum ?vs h w c b y x kh kw)))
              [0 ..< w - kw + 1])) [0 ..< h - kh + 1])
            = replicate ((h - kh + 1) * ((w - kw + 1) * f)) (?g (as ! b))"
    if "b < length as" for b
    using that by (intro concat_upt_const xs)
  have "concat (map (\<lambda>b. concat (map (\<lambda>y. concat (map (\<lambda>x.
                replicate f (act_fn a (window_sum ?vs h w c b y x kh kw)))
              [0 ..< w - kw + 1])) [0 ..< h - kh + 1])) [0 ..< length as])
        = const_images ((h - kh + 1) * ((w - kw + 1) * f)) (map ?g as)"
    by (intro concat_upt_per_image ys)
  moreover from assms have "\<not> (h < kh \<or> w < kw)" by simp
  ultimately show ?thesis unfolding mini_conv_def assms(1,2)
    by (simp only: pyval.case tensor.sel list.case if_False mult.assoc)
qed

lemma max_list_replicate: "0 < k \<Longrightarrow> max_list (replicate k v) = v"
proof (induction k)
  case 0
  then show ?case by simp
next
  case (Suc k)
  then show ?case by (cases k) simp_all
qed

lemma pool_bound:
  assumes "y < h div p" and "d < (p::nat)"
  shows "y * p + d < h"
proof -
  from assms(2) have "y * p + d < Suc y * p" by simp
  also from assms(1) have "Suc y * p \<le> (h div p) * p" by (intro mult_le_mono1) simp
  also have "\<dots> \<le> h" by simp
  finally show ?thesis .
qed

lemma window_const:
  assumes "b < length as" and "y < h div ph" and "x < w div pw" and "ch < c"
  shows "window (const_images (h * w * c) as) h w c b y x ch ph pw = replicate (ph * pw) (as ! b)"
proof -
  have px: "nhwc (const_images (h * w * c) as) h w c b (y * ph + dy) (x * pw + dx) ch = as ! b"
    if "dy < ph" and "dx < pw" for dy dx
    using assms that by (intro nhwc_const pool_bound) simp_all
  have row: "map (\<lambda>dx. nhwc (const_images (h * w * c) as) h w c b (y * ph + dy) (x * pw + dx) ch)
               [0 ..< pw] = replicate pw (as ! b)"
    if "dy < ph" for dy
    using that by (intro map_upt_const px)
  show ?thesis unfolding window_def by (intro concat_upt_const row)
qed

lemma mini_pool_const:
  assumes "n = length as" and "m = h * w * c" and "0 < ph" and "0 < pw"
    and "ph \<le> h" and "pw \<le> w"
  shows "mini_pool ph pw (Single (Tensor [n, h, w, c] (const_images m as)))
         = Inr (Tensor [n, h div ph, w div pw, c]
                 (const_images ((h div ph) * (w div pw) * c) as))"
proof -
  let ?vs = "const_images (h * w * c) as"
  have mx: "max_list (window ?vs h w c b y x ch ph pw) = as ! b"
    if "b < length as" and "y < h div ph" and "x < w div pw" and "ch < c" for b y x ch
    using assms that by (simp add: window_const max_list_replicate)
  have chs: "map (\<lambda>ch. max_list (window ?vs h w c b y x ch ph pw)) [0 ..< c]
             = replicate c (as ! b)"
    if "b < length as" and "y < h div ph" and "x < w div pw" for b y x
    using that by (intro map_upt_const mx)
  have xs: "concat (map (\<lambda>x. map (\<lambda>ch. max_list (window ?vs h w c b y x ch ph pw)) [0 ..< c])
              [0 ..< w div pw]) = replicate ((w div pw) * c) (as ! b)"
    if "b < length as" and "y < h div ph" for b y
    using that by (intro concat_upt_const chs)
  have ys: "concat (map (\<lambda>y. concat (map (\<lambda>x.
              map (\<lambda>ch. max_list (window ?vs h w c b y x ch ph pw)) [0 ..< c])
              [0 ..< w div pw])) [0 ..< h div ph])
            = replicate ((h div ph) * ((w div pw) * c)) ((\<lambda>v. v) (as ! b))"
    if "b < length as" for b
    using that by (simp only: concat_upt_const [OF xs])
  have "concat (map (\<lambda>b. concat (map (\<lambda>y. concat (map (\<lambda>x.
                map (\<lambda>ch. max_list (window ?vs h w c b y x ch ph pw)) [0 ..< c])
              [0 ..< w div pw])) [0 ..< h div ph])) [0 ..< length as])
        = const_images ((h div ph) * ((w div pw) * c)) (map (\<lambda>v. v) as)"
    by (intro concat_upt_per_image ys)
  moreover from assms have "\<not> (h < ph \<or> w < pw)" by simp
  ultimately show ?thesis unfolding mini_pool_def assms(1,2)
    by (simp only: pyval.case tensor.sel list.case if_False mult.assoc list.map_ident)
qed

lemma mini_flatten_const:
  "mini_flatten (Single (Tensor [n, h, w, c] vs)) = Inr (Tensor [n, h * w * c] vs)"
  by (simp add: mini_flatten_def mult.assoc)

lemma mini_dense_const:
  assumes "n = length as"
  shows "mini_dense u a (Single (Tensor [n, d] (const_images d as)))
         = Inr (Tensor [n, u] (const_images u (map (\<lambda>v. act_fn a (real d * v)) as)))"
proof -
  have row: "sum_list (map (\<lambda>j. const_images d as ! (r * d + j)) [0 ..< d]) = real d * as ! r"
    if "r < length as" for r
    using that by (intro sum_list_upt_const const_images_nth)
  have "concat (map (\<lambda>r. replicate u (act_fn a
            (sum_list (map (\<lambda>j. const_images d as ! (r * d + j)) [0 ..< d]))))
          [0 ..< length as])
        = const_images u (map (\<lambda>v. act_fn a (real d * v)) as)"
    by (intro concat_upt_per_image) (simp only: row)
  with assms show ?thesis by (simp add: mini_dense_def)
qed

lemma init_MiniKeras:
  assumes "0 \<le> n"
  shows "init MiniKeras n kwargs =
     Inr \<lparr>num_classes = n,
          batch_size = (case kwargs ''batch_size'' of None \<Rightarrow> PInt 16 | Some v \<Rightarrow> v),
          in_shape = (case kwargs ''input_shape'' of None \<Rightarrow> PTuple [105, 105, 1] | Some v \<Rightarrow> v),
          input_layer = (\<lambda>v. Inr v),
          conv1 = mini_conv 64 10 10 relu, pool1 = mini_pool 2 2,
          conv2 = mini_conv 128 7 7 relu, pool2 = mini_pool 2 2,
          conv3 = mini_conv 128 4 4 relu, pool3 = mini_pool 2 2,
          conv4 = mini_conv 256 4 4 relu, pool4 = mini_pool 2 2,
          flatten = mini_flatten, dense = mini_dense 4096 sigmoid,
          prediction = mini_dense (nat n) sigmoid\<rparr>"
  using assms by (simp add: init_def MiniKeras_def and_then_def)

lemma init_MiniKeras_negative:
  assumes "n < 0"
  shows "init MiniKeras n kwargs = Inl ValueError"
  using assms by (simp add: init_def MiniKeras_def and_then_def)

lemma mini_encoder:
  assumes "init MiniKeras n kwargs = Inr net"
  shows "encoder net (Single (Tensor [2, 105, 105, 1] (const_images 11025 [u, v]))) x =
           Inr (Tensor [2, 4096] (const_images 4096 [mini_embedding u, mini_embedding v]))"
proof -
  have "0 \<le> n"
  proof (rule ccontr)
    assume "\<not> 0 \<le> n"
    then have "init MiniKeras n kwargs = Inl ValueError" by (intro init_MiniKeras_negative) simp
    with assms show False by simp
  qed
  from assms init_MiniKeras [OF this, of kwargs] have
    "input_layer net = (\<lambda>v. Inr v)"
    "conv1 net = mini_conv 64 10 10 relu" "pool1 net = mini_pool 2 2"
    "conv2 net = mini_conv 128 7 7 relu" "pool2 net = mini_pool 2 2"
    "conv3 net = mini_conv 128 4 4 relu" "pool3 net = mini_pool 2 2"
    "conv4 net = mini_conv 256 4 4 relu" "pool4 net = mini_pool 2 2"
    "flatten net = mini_flatten" "dense net = mini_dense 4096 sigmoid"
    by auto
  then show ?thesis
    by (simp add: encoder_def and_then_def mini_conv_const mini_pool_const mini_flatten_const
          mini_dense_const mini_embedding_def del: act_fn.simps)
qed

lemma wf_mini_embedding: "wf_tensor (Tensor [2, 4096] (const_images 4096 [p, q]))"
  by (simp add: wf_tensor_def)

lemma getitem_pair:
  "getitem (Single (Tensor [2, 105, 105, 1] (const_images 11025 [u, v]))) 0
     = Inr (Tensor [105, 105, 1] (replicate 11025 u))"
  "getitem (Single (Tensor [2, 105, 105, 1] (const_images 11025 [u, v]))) 1
     = Inr (Tensor [105, 105, 1] (replicate 11025 v))"
  by (simp_all add: getitem_def const_images_def)

lemma mini_sisters:
  assumes "init MiniKeras n kwargs = Inr net"
  shows "sisters net (Single (Tensor [2, 105, 105, 1] (const_images 11025 [u, v])))
         = Inr (Tensor [2, 4096] (const_images 4096 [mini_embedding u, mini_embedding v]),
                Tensor [2, 4096] (const_images 4096 [mini_embedding u, mini_embedding v]))"
  using getitem_pair mini_encoder [OF assms] by (rule sisters_eq)

lemma mini_call_distance:
  assumes "init MiniKeras n kwargs = Inr net"
  shows "call_distance net (Single (Tensor [2, 105, 105, 1] (const_images 11025 [u, v])))
         = Inr (Tensor [2, 4096] (const_images 4096 [0, 0]))"
proof -
  have "replicate 8192 (0::real) = const_images 4096 [0, 0]"
    by (simp add: const_images_def replicate_add [symmetric])
  with mini_sisters [OF assms, of u v]
    l1_self [OF wf_mini_embedding, of "mini_embedding u" "mini_embedding v"]
  show ?thesis by (simp add: call_distance_def and_then_def)
qed

lemma sigmoid_pos: 
  assumes "0 < v"
  shows "act_fn sigmoid v \<noteq> 1 / 2"
proof
  assume "act_fn sigmoid v = 1 / 2"
  then have "1 / (1 + exp (- v)) = 1 / (2::real)" by simp
  moreover have "1 + exp (- v) \<noteq> 0" using exp_gt_zero [of "- v"] by linarith
  ultimately have "1 + exp (- v) = 2" by (simp add: frac_eq_eq)
  then have "exp (- v) = 1" by simp
  with assms show False by simp
qed

lemma mini_embedding_0: "mini_embedding 0 = 1 / 2"
  by (simp add: mini_embedding_def)

lemma mini_embedding_1: "mini_embedding 1 \<noteq> 1 / 2"
proof -
  have "mini_embedding 1 = act_fn sigmoid 3030528924057600"
    by (simp add: mini_embedding_def del: act_fn.simps(2))
  then show ?thesis using sigmoid_pos [of 3030528924057600] by simp
qed

lemma mini_call:
  assumes "init MiniKeras n kwargs = Inr net"
  shows "call net (Single (Tensor [2, 105, 105, 1] (const_images 11025 [u, v])))
         = Inl (UnboundLocalError ''x'')"
  using mini_call_distance [OF assms, of u v] by (simp add: call_via_distance and_then_def)

section \<open>Claims\<close>

text \<open>
  Claim C6. The distance stage, applied to two well-formed tensors of equal shape with
  real entries, returns a tensor of that same shape whose entries are the absolute
  differences of the corresponding entries, and every entry of it is at least 0.
\<close>

theorem l1_abs_difference:
  assumes "wf_tensor a" and "wf_tensor b" and "shape a = shape b"
  shows "\<exists>d. l1 (a, b) = Inr d \<and> shape d = shape a \<and> wf_tensor d
           \<and> vals d = map2 (\<lambda>x y. \<bar>x - y\<bar>) (vals a) (vals b)
           \<and> (\<forall>i < length (vals d). vals d ! i = \<bar>vals a ! i - vals b ! i\<bar>)
           \<and> (\<forall>v \<in> set (vals d). 0 \<le> v)"
proof -
  let ?d = "Tensor (shape a) (map2 (\<lambda>x y. \<bar>x - y\<bar>) (vals a) (vals b))"
  have "l1 (a, b) = Inr ?d" using assms by (rule l1_same_shape)
  moreover have "wf_tensor ?d" using assms by (simp add: wf_tensor_def)
  moreover have "\<forall>v \<in> set (vals ?d). 0 \<le> v" by auto
  moreover have "\<forall>i < length (vals ?d). vals ?d ! i = \<bar>vals a ! i - vals b ! i\<bar>" by simp
  ultimately show ?thesis by (intro exI [of _ ?d]) simp
qed

theorem l1_abs_difference_witness:
  "wf_tensor (Tensor [1, 3] [1, 5, 2]) \<and> wf_tensor (Tensor [1, 3] [4, 5, 0])
   \<and> l1 (Tensor [1, 3] [1, 5, 2], Tensor [1, 3] [4, 5, 0]) = Inr (Tensor [1, 3] [3, 0, 2])"
proof -
  have a: "wf_tensor (Tensor [1, 3] [1, 5, 2])" and b: "wf_tensor (Tensor [1, 3] [4, 5, 0])"
    by (simp_all add: wf_tensor_def)
  have s: "shape (Tensor [1, 3] [1, 5, 2]) = shape (Tensor [1, 3] [4, 5, 0])" by simp
  from l1_abs_difference [OF a b s] obtain d
    where "l1 (Tensor [1, 3] [1, 5, 2], Tensor [1, 3] [4, 5, 0]) = Inr d"
      and "shape d = [1, 3]" and "vals d = [3, 0, 2]"
    by auto
  with a b show ?thesis by (cases d) simp
qed

text \<open>
  Claim C10. The two tower invocations of \<^verbatim>\<open>encoder\<close> return the same embedding
  whatever image they are passed, since the function reads the whole \<^verbatim>\<open>inputs\<close>
  of the enclosing call; so whenever the encoder returns a (well-formed) embedding, both
  towers return it and the distance that the forward pass computes is the all-zero tensor
  of the embedding's shape.
\<close>

theorem towers_identical_distance_zero:
  assumes "getitem inputs 0 = Inr a" and "getitem inputs 1 = Inr b"
    and "encoder self inputs a = Inr e" and "wf_tensor e"
  shows "encoder self inputs x = encoder self inputs y
         \<and> encoder self inputs b = Inr e
         \<and> sisters self inputs = Inr (e, e)
         \<and> call_distance self inputs = Inr (Tensor (shape e) (replicate (prod_list (shape e)) 0))"
proof -
  have "encoder self inputs x = encoder self inputs y" by (rule encoder_ignores_x)
  moreover have "encoder self inputs b = Inr e"
    using assms(3) encoder_ignores_x [of self inputs b a] by simp
  moreover have s: "sisters self inputs = Inr (e, e)" using assms(1-3) by (rule sisters_eq)
  moreover have "call_distance self inputs = Inr (Tensor (shape e) (replicate (prod_list (shape e)) 0))"
    using s l1_self [OF assms(4)] by (simp add: call_distance_def and_then_def)
  ultimately show ?thesis by simp
qed

theorem towers_identical_distance_zero_witness:
  "and_then (init MiniKeras 1 [''batch_size'' \<mapsto> PInt 2])
     (\<lambda>net. sisters net (Single (Tensor [2, 105, 105, 1] (const_images 11025 [1, 0]))))
   = Inr (Tensor [2, 4096] (const_images 4096 [mini_embedding 1, mini_embedding 0]),
          Tensor [2, 4096] (const_images 4096 [mini_embedding 1, mini_embedding 0]))
   \<and> and_then (init MiniKeras 1 [''batch_size'' \<mapsto> PInt 2])
     (\<lambda>net. call_distance net (Single (Tensor [2, 105, 105, 1] (const_images 11025 [1, 0]))))
   = Inr (Tensor [2, 4096] (replicate 8192 0))"
proof -
  obtain net where net: "init MiniKeras 1 [''batch_size'' \<mapsto> PInt 2] = Inr net"
    by (simp add: init_MiniKeras)
  let ?X = "Single (Tensor [2, 105, 105, 1] (const_images 11025 [1, 0]))"
  let ?e = "Tensor [2, 4096] (const_images 4096 [mini_embedding 1, mini_embedding 0])"
  have e: "encoder net ?X (Tensor [105, 105, 1] (replicate 11025 1)) = Inr ?e"
    by (rule mini_encoder [OF net])
  have w: "wf_tensor ?e" by (rule wf_mini_embedding)
  from towers_identical_distance_zero [OF getitem_pair(1) getitem_pair(2) e w] net show ?thesis
    by (simp add: and_then_def)
qed

text \<open>
  Claim C3. The constructor creates one set of encoder layers, each by one call of its
  layer constructor, and both tower invocations of a forward pass evaluate through
  exactly these layer objects: whatever image a tower is passed, its embedding is the
  value of that one chain of layers, so the two towers return identical embeddings.
\<close>

theorem shared_encoder_layers:
  assumes "init K n kwargs = Inr self"
    and "getitem inputs 0 = Inr a" and "getitem inputs 1 = Inr b"
  shows "\<exists>il c1 c2 c3 c4 p fl de.
           InputLayer K (case kwargs ''input_shape'' of None \<Rightarrow> PTuple [105, 105, 1] | Some v \<Rightarrow> v)
                        (case kwargs ''batch_size'' of None \<Rightarrow> PInt 16 | Some v \<Rightarrow> v) = Inr il
         \<and> Conv2D K 0 64 (10, 10) l2 relu = Inr c1
         \<and> Conv2D K 1 128 (7, 7) l2 relu = Inr c2
         \<and> Conv2D K 2 128 (4, 4) l2 relu = Inr c3
         \<and> Conv2D K 3 256 (4, 4) l2 relu = Inr c4
         \<and> MaxPool2D K (2, 2) = Inr p
         \<and> Flatten K = Inr fl
         \<and> Dense K 0 4096 sigmoid = Inr de
         \<and> (\<forall>img. encoder self inputs img =
               and_then (il inputs) (\<lambda>x.
               and_then (c1 x) (\<lambda>y. and_then (p (Single y)) (\<lambda>x.
               and_then (c2 (Single x)) (\<lambda>y. and_then (p (Single y)) (\<lambda>x.
               and_then (c3 (Single x)) (\<lambda>y. and_then (p (Single y)) (\<lambda>x.
               and_then (c4 (Single x)) (\<lambda>y. and_then (p (Single y)) (\<lambda>x.
               and_then (fl (Single x)) (\<lambda>x. de (Single x))))))))))))
         \<and> sisters self inputs =
             and_then (encoder self inputs a) (\<lambda>embedding. Inr (embedding, embedding))"
proof -
  from assms(1) obtain il c1 c2 c3 c4 p fl de where
    k: "InputLayer K (case kwargs ''input_shape'' of None \<Rightarrow> PTuple [105, 105, 1] | Some v \<Rightarrow> v)
                     (case kwargs ''batch_size'' of None \<Rightarrow> PInt 16 | Some v \<Rightarrow> v) = Inr il"
      "Conv2D K 0 64 (10, 10) l2 relu = Inr c1" "Conv2D K 1 128 (7, 7) l2 relu = Inr c2"
      "Conv2D K 2 128 (4, 4) l2 relu = Inr c3" "Conv2D K 3 256 (4, 4) l2 relu = Inr c4"
      "MaxPool2D K (2, 2) = Inr p" "Flatten K = Inr fl" "Dense K 0 4096 sigmoid = Inr de"
    and l: "input_layer self = il" "conv1 self = c1" "conv2 self = c2" "conv3 self = c3"
      "conv4 self = c4" "pool1 self = p" "pool2 self = p" "pool3 self = p" "pool4 self = p"
      "flatten self = fl" "dense self = de"
    by (auto simp add: init_def Let_def and_then_def split: sum.splits)
  have e: "encoder self inputs img =
               and_then (il inputs) (\<lambda>x.
               and_then (c1 x) (\<lambda>y. and_then (p (Single y)) (\<lambda>x.
               and_then (c2 (Single x)) (\<lambda>y. and_then (p (Single y)) (\<lambda>x.
               and_then (c3 (Single x)) (\<lambda>y. and_then (p (Single y)) (\<lambda>x.
               and_then (c4 (Single x)) (\<lambda>y. and_then (p (Single y)) (\<lambda>x.
               and_then (fl (Single x)) (\<lambda>x. de (Single x)))))))))))" for img
    unfolding encoder_def l by (simp add: and_then_def split: sum.splits)
  have s: "sisters self inputs = and_then (encoder self inputs a) (\<lambda>embedding. Inr (embedding, embedding))"
    using assms(2,3) encoder_ignores_x [of self inputs b a]
    by (simp add: sisters_def and_then_def split: sum.splits)
  from k e s show ?thesis by blast
qed

theorem shared_encoder_layers_witness:
  "and_then (init MiniKeras 1 [''batch_size'' \<mapsto> PInt 2])
     (\<lambda>net. sisters net (Single (Tensor [2, 105, 105, 1] (const_images 11025 [1, 1]))))
   = Inr (Tensor [2, 4096] (const_images 4096 [mini_embedding 1, mini_embedding 1]),
          Tensor [2, 4096] (const_images 4096 [mini_embedding 1, mini_embedding 1]))"
proof -
  obtain net where net: "init MiniKeras 1 [''batch_size'' \<mapsto> PInt 2] = Inr net"
    by (simp add: init_MiniKeras)
  let ?X = "Single (Tensor [2, 105, 105, 1] (const_images 11025 [1, 1]))"
  from shared_encoder_layers [OF net getitem_pair(1) [of 1 1] getitem_pair(2) [of 1 1]]
  have "sisters net ?X =
          and_then (and_then (mini_conv 64 10 10 relu ?X) (\<lambda>y.
                    and_then (mini_pool 2 2 (Single y)) (\<lambda>x.
                    and_then (mini_conv 128 7 7 relu (Single x)) (\<lambda>y.
                    and_then (mini_pool 2 2 (Single y)) (\<lambda>x.
                    and_then (mini_conv 128 4 4 relu (Single x)) (\<lambda>y.
                    and_then (mini_pool 2 2 (Single y)) (\<lambda>x.
                    and_then (mini_conv 256 4 4 relu (Single x)) (\<lambda>y.
                    and_then (mini_pool 2 2 (Single y)) (\<lambda>x.
                    and_then (mini_flatten (Single x)) (\<lambda>x.
                    mini_dense 4096 sigmoid (Single x)))))))))))
            (\<lambda>embedding. Inr (embedding, embedding))"
    by (auto simp add: MiniKeras_def and_then_def)
  then have "sisters net ?X
      = Inr (Tensor [2, 4096] (const_images 4096 [mini_embedding 1, mini_embedding 1]),
             Tensor [2, 4096] (const_images 4096 [mini_embedding 1, mini_embedding 1]))"
    by (simp add: and_then_def mini_conv_const mini_pool_const mini_flatten_const
          mini_dense_const mini_embedding_def del: act_fn.simps)
  with net show ?thesis by (simp add: and_then_def)
qed

text \<open>
  Claim C9, as amended. \<^verbatim>\<open>__init__\<close> checks nothing itself: for every value of
  \<^verbatim>\<open>num_classes\<close>, whenever the library's layer constructors accept the arguments
  they are given, construction succeeds, stores \<^verbatim>\<open>num_classes\<close> unchanged and uses
  the final Dense layer built with that many units.
\<close>

theorem init_without_validation:
  assumes "InputLayer K (case kwargs ''input_shape'' of None \<Rightarrow> PTuple [105, 105, 1] | Some v \<Rightarrow> v)
                        (case kwargs ''batch_size'' of None \<Rightarrow> PInt 16 | Some v \<Rightarrow> v) = Inr il"
    and "Conv2D K 0 64 (10, 10) l2 relu = Inr c1"
    and "Conv2D K 1 128 (7, 7) l2 relu = Inr c2"
    and "Conv2D K 2 128 (4, 4) l2 relu = Inr c3"
    and "Conv2D K 3 256 (4, 4) l2 relu = Inr c4"
    and "MaxPool2D K (2, 2) = Inr p"
    and "Flatten K = Inr fl"
    and "Dense K 0 4096 sigmoid = Inr de"
    and "Dense K 1 n sigmoid = Inr pr"
  shows "\<exists>net. init K n kwargs = Inr net \<and> num_classes net = n \<and> prediction net = pr"
  using assms by (simp add: init_def and_then_def)

theorem init_without_validation_witness:
  "\<exists>net. init MiniKeras 5 Map.empty = Inr net \<and> num_classes net = 5
         \<and> prediction net = mini_dense 5 sigmoid"
  using init_without_validation [of MiniKeras Map.empty "\<lambda>v. Inr v" "mini_conv 64 10 10 relu"
      "mini_conv 128 7 7 relu" "mini_conv 128 4 4 relu" "mini_conv 256 4 4 relu" "mini_pool 2 2"
      mini_flatten "mini_dense 4096 sigmoid" 5 "mini_dense 5 sigmoid"]
  by (simp add: MiniKeras_def)

text \<open>
  Claim C9 as stated fails: construction with \<^verbatim>\<open>num_classes = 0\<close>, which is not
  positive, returns a model and raises nothing.
\<close>

theorem init_accepts_nonpositive_counterexample:
  "map_sum id num_classes (init MiniKeras 0 Map.empty) = Inr 0"
  by (simp add: init_MiniKeras)

text \<open>
  Claim C1 against the code. For every model and input, once the distance is computed the
  forward pass raises UnboundLocalError for \<open>x\<close> and the classifier is not applied. On
  a pair of all-zero \<open>105 \<times> 105 \<times> 1\<close> images the classifier applied to the distance
  would return the scores \<open>1/2, 1/2\<close>; the forward pass raises instead.
\<close>

theorem call_skips_classifier:
  "call self inputs
     = and_then (call_distance self inputs) (\<lambda>distance. Inl (UnboundLocalError ''x''))
   \<and> and_then (init MiniKeras 1 [''batch_size'' \<mapsto> PInt 2])
        (\<lambda>net. call net (Single (Tensor [2, 105, 105, 1] (const_images 11025 [0, 0]))))
     = Inl (UnboundLocalError ''x'')
   \<and> and_then (init MiniKeras 1 [''batch_size'' \<mapsto> PInt 2])
        (\<lambda>net. and_then
           (call_distance net (Single (Tensor [2, 105, 105, 1] (const_images 11025 [0, 0]))))
           (\<lambda>distance. prediction net (Single distance)))
     = Inr (Tensor [2, 1] [1 / 2, 1 / 2])"
proof -
  obtain net where net: "init MiniKeras 1 [''batch_size'' \<mapsto> PInt 2] = Inr net"
    by (simp add: init_MiniKeras)
  then have p: "prediction net = mini_dense 1 sigmoid" by (auto simp add: init_MiniKeras)
  have "mini_dense 1 sigmoid (Single (Tensor [2, 4096] (const_images 4096 [0, 0])))
        = Inr (Tensor [2, 1] (const_images 1 (map (\<lambda>v. act_fn sigmoid (real 4096 * v)) [0, 0])))"
    by (rule mini_dense_const) simp
  moreover have "const_images 1 (map (\<lambda>v. act_fn sigmoid (real 4096 * v)) [0, 0]) = [1 / 2, 1 / 2]"
    by (simp add: const_images_def)
  ultimately have "prediction net (Single (Tensor [2, 4096] (const_images 4096 [0, 0])))
        = Inr (Tensor [2, 1] [1 / 2, 1 / 2])"
    by (simp only: p)
  with net mini_call [OF net, of 0 0] mini_call_distance [OF net, of 0 0] show ?thesis
    by (simp add: call_via_distance and_then_def)
qed

text \<open>
  Claim C2 against the code. The image handed to a tower invocation can be replaced by
  any tensor \<open>z\<close> without changing the result of the two towers, for every model and
  input; and the embedding returned by the first tower is not a function of the first
  image: for two pairs of \<open>105 \<times> 105 \<times> 1\<close> images with the same first image and
  different second images it differs.
\<close>

theorem towers_do_not_encode_their_image:
  "sisters self inputs
     = and_then (getitem inputs 0) (\<lambda>i0. and_then (encoder self inputs z) (\<lambda>first.
       and_then (getitem inputs 1) (\<lambda>i1. and_then (encoder self inputs z) (\<lambda>second.
       Inr (first, second)))))
   \<and> map_sum id fst (and_then (init MiniKeras 1 [''batch_size'' \<mapsto> PInt 2])
        (\<lambda>net. sisters net (Single (Tensor [2, 105, 105, 1] (const_images 11025 [0, 0])))))
     \<noteq> map_sum id fst (and_then (init MiniKeras 1 [''batch_size'' \<mapsto> PInt 2])
        (\<lambda>net. sisters net (Single (Tensor [2, 105, 105, 1] (const_images 11025 [0, 1])))))"
proof -
  have u: "sisters self inputs
     = and_then (getitem inputs 0) (\<lambda>i0. and_then (encoder self inputs z) (\<lambda>first.
       and_then (getitem inputs 1) (\<lambda>i1. and_then (encoder self inputs z) (\<lambda>second.
       Inr (first, second)))))"
    by (simp add: sisters_def encoder_def)
  obtain net where net: "init MiniKeras 1 [''batch_size'' \<mapsto> PInt 2] = Inr net"
    by (simp add: init_MiniKeras)
  have "mini_embedding 0 \<noteq> mini_embedding 1"
    using mini_embedding_0 mini_embedding_1 by simp
  then have "const_images 4096 [mini_embedding 0, mini_embedding 0]
             \<noteq> const_images 4096 [mini_embedding 0, mini_embedding 1]"
    by (simp add: const_images_def)
  with net mini_sisters [OF net, of 0 0] mini_sisters [OF net, of 0 1] u show ?thesis
    by (simp add: and_then_def)
qed

text \<open>
  Claim C4 against the code. The forward pass returns no result, for any model, any
  behaviour of the library's layers and any input.
\<close>

theorem call_never_returns: "call self inputs \<noteq> Inr y"
  by (simp add: call_via_distance and_then_def split: sum.splits)

text \<open>
  Claim C8 against the code. For the input shape \<open>(16, 105, 105, 1)\<close> and
  \<^verbatim>\<open>num_classes = 1\<close>, \<^verbatim>\<open>compute_output_shape\<close> returns \<open>(16, 105, 105, 1)\<close>: only
  the last dimension is replaced, the inner dimensions stay.
\<close>

theorem compute_output_shape_keeps_inner_dims:
  "and_then (init MiniKeras 1 Map.empty)
     (\<lambda>net. compute_output_shape net [Some 16, Some 105, Some 105, Some 1])
   = Inr [Some 16, Some 105, Some 105, Some 1]"
  by (simp add: init_MiniKeras and_then_def compute_output_shape_def)

end
